theory Spec2Isabelle
  imports Main "HOL-Library.AList"
begin

section \<open>Python values, dictionaries and exceptions\<close>

text \<open>
  The values a template variable can carry (\<^verbatim>\<open>Any\<close> in the source): the scalars a
  YAML document or a keyword argument provides.
\<close>

datatype pyval = PNone | PBool bool | PInt int | PStr string

text \<open>
  A Python \<^verbatim>\<open>dict\<close> keeps its keys in insertion order, and the source iterates over
  \<^verbatim>\<open>items()\<close> to build lists of messages, so a dictionary is an association list.
  \<^verbatim>\<open>d[k] = v\<close> is \<open>AList.update k v d\<close>: an existing key keeps its place, a new key goes
  last. \<^verbatim>\<open>k in d\<close> is \<open>has_key d k\<close>.
\<close>

type_synonym ('k, 'v) dict = "('k \<times> 'v) list"

definition has_key :: "('k, 'v) dict \<Rightarrow> 'k \<Rightarrow> bool" where
  "has_key d k = (map_of d k \<noteq> None)"

definition keys :: "('k, 'v) dict \<Rightarrow> 'k list" where
  "keys d = map fst d"

text \<open>The exceptions the source raises or lets through, each with its message.\<close>

datatype pyerror =
    ValueError string
  | TypeError string
  | AttributeError string
  | OSError string
  | YAMLError string
  | TemplateSyntaxError string
  | UndefinedError string

fun err_msg :: "pyerror \<Rightarrow> string" where
  "err_msg (ValueError m) = m"
| "err_msg (TypeError m) = m"
| "err_msg (AttributeError m) = m"
| "err_msg (OSError m) = m"
| "err_msg (YAMLError m) = m"
| "err_msg (TemplateSyntaxError m) = m"
| "err_msg (UndefinedError m) = m"

text \<open>\<^verbatim>\<open>str(n)\<close> for an integer, and \<^verbatim>\<open>sep.join(xs)\<close>.\<close>

definition digit :: "nat \<Rightarrow> char" where
  "digit n = ''0123456789'' ! (n mod 10)"

function str_nat :: "nat \<Rightarrow> string" where
  "str_nat n = (if n < 10 then [digit n] else str_nat (n div 10) @ [digit n])"
  by pat_completeness auto
termination
  by (relation "measure id") auto

declare str_nat.simps [simp del]

definition str_int :: "int \<Rightarrow> string" where
  "str_int i = (if i < 0 then CHR ''-'' # str_nat (nat (- i)) else str_nat (nat i))"

fun pystr :: "pyval \<Rightarrow> string" where
  "pystr PNone = ''None''"
| "pystr (PBool b) = (if b then ''True'' else ''False'')"
| "pystr (PInt i) = str_int i"
| "pystr (PStr s) = s"

text \<open>A name between single quotes, as the f-strings of the source print it.\<close>

definition quoted :: "string \<Rightarrow> string" where
  "quoted s = CHR 0x27 # s @ [CHR 0x27]"


section \<open>template.py: VariableSpec and PromptTemplate\<close>

text \<open>
  The two dataclasses. Field names carry a prefix because both classes have a
  \<^verbatim>\<open>name\<close> and a \<^verbatim>\<open>description\<close>. Fields have the types the dataclasses annotate.
\<close>

record VariableSpec =
  vs_name :: string
  vs_required :: bool
  vs_default :: pyval
  vs_description :: string

record PromptTemplate =
  pt_name :: string
  pt_template :: string
  pt_version :: int
  pt_description :: string
  pt_variables :: "(string, VariableSpec) dict"

text \<open>
  Parsed YAML, as \<^verbatim>\<open>yaml.safe_load\<close> hands it to \<^verbatim>\<open>from_dict\<close>. A key of a mapping
  may be absent (\<open>None\<close>). The scalar fields are typed as the dataclass annotates them;
  what the source tests at run time is kept as a constructor: a variable's entry is a
  mapping or something else (\<^verbatim>\<open>isinstance(var_spec, dict)\<close>), the \<^verbatim>\<open>variables\<close> value
  is a mapping or something else (the call of \<^verbatim>\<open>.items()\<close>), the document is
  \<^verbatim>\<open>None\<close>, a mapping or something else.
\<close>

record raw_spec =
  rs_required :: "bool option"
  rs_default :: "pyval option"
  rs_description :: "string option"

datatype var_entry = SpecDict raw_spec | SpecOther

datatype variables_field = VarsDict "(string, var_entry) dict" | VarsOther

record document =
  d_name :: "string option"
  d_version :: "int option"
  d_description :: "string option"
  d_variables :: "variables_field option"
  d_template :: "string option"

datatype yaml_data = DataNone | DataDict document | DataOther

text \<open>\<^verbatim>\<open>dict.get(key, default)\<close> on an optional field.\<close>

definition get_or :: "'a option \<Rightarrow> 'a \<Rightarrow> 'a" where
  "get_or field dflt = (case field of None \<Rightarrow> dflt | Some v \<Rightarrow> v)"

text \<open>\<^verbatim>\<open>VariableSpec.from_dict\<close> (template.py, lines 18-26).\<close>

definition VariableSpec_from_dict :: "string \<Rightarrow> raw_spec \<Rightarrow> VariableSpec" where
  "VariableSpec_from_dict nm data =
     \<lparr> vs_name = nm,
       vs_required = get_or (rs_required data) True,
       vs_default = get_or (rs_default data) PNone,
       vs_description = get_or (rs_description data) [] \<rparr>"

text \<open>
  \<^verbatim>\<open>PromptTemplate.from_dict\<close> (lines 48-66). The loop over
  \<^verbatim>\<open>data["variables"].items()\<close> is a fold that assigns into the dictionary. A document
  that is not a mapping, or whose \<^verbatim>\<open>variables\<close> has no \<^verbatim>\<open>items\<close>, raises.
\<close>

definition from_dict_var :: "string \<times> var_entry \<Rightarrow> (string, VariableSpec) dict
    \<Rightarrow> (string, VariableSpec) dict" where
  "from_dict_var kv variables =
     (case kv of (var_name, var_spec) \<Rightarrow>
        (case var_spec of
           SpecDict sp \<Rightarrow> AList.update var_name (VariableSpec_from_dict var_name sp) variables
         | SpecOther \<Rightarrow>
             AList.update var_name
               \<lparr> vs_name = var_name, vs_required = True, vs_default = PNone,
                 vs_description = [] \<rparr> variables))"

definition from_dict_variables :: "document \<Rightarrow> pyerror + (string, VariableSpec) dict" where
  "from_dict_variables d =
     (case d_variables d of
        None \<Rightarrow> Inr []
      | Some (VarsDict vs) \<Rightarrow> Inr (fold from_dict_var vs [])
      | Some VarsOther \<Rightarrow> Inl (AttributeError ''object has no attribute items''))"

definition from_dict :: "yaml_data \<Rightarrow> pyerror + PromptTemplate" where
  "from_dict data =
     (case data of
        DataNone \<Rightarrow> Inl (TypeError ''argument of type NoneType is not iterable'')
      | DataOther \<Rightarrow> Inl (AttributeError ''object has no attribute get'')
      | DataDict d \<Rightarrow>
          (case from_dict_variables d of
             Inl e \<Rightarrow> Inl e
           | Inr variables \<Rightarrow>
               Inr \<lparr> pt_name = get_or (d_name d) ''unnamed'',
                     pt_template = get_or (d_template d) [],
                     pt_version = get_or (d_version d) 1,
                     pt_description = get_or (d_description d) [],
                     pt_variables = variables \<rparr>))"

text \<open>
  \<^verbatim>\<open>PromptTemplate.to_dict\<close> (lines 68-87): every variable gets \<^verbatim>\<open>required\<close> and
  \<^verbatim>\<open>description\<close>, and \<^verbatim>\<open>default\<close> only under the test of line 83.
\<close>

definition to_dict_var :: "string \<times> VariableSpec \<Rightarrow> (string, var_entry) dict
    \<Rightarrow> (string, var_entry) dict" where
  "to_dict_var kv result =
     (case kv of (var_name, var_spec) \<Rightarrow>
        AList.update var_name
          (SpecDict
             \<lparr> rs_required = Some (vs_required var_spec),
               rs_default =
                 (if \<not> vs_required var_spec \<and> vs_default var_spec \<noteq> PNone
                  then Some (vs_default var_spec) else None),
               rs_description = Some (vs_description var_spec) \<rparr>)
          result)"

definition to_dict :: "PromptTemplate \<Rightarrow> document" where
  "to_dict t =
     \<lparr> d_name = Some (pt_name t),
       d_version = Some (pt_version t),
       d_description = Some (pt_description t),
       d_variables = Some (VarsDict (fold to_dict_var (pt_variables t) [])),
       d_template = Some (pt_template t) \<rparr>"

subsection \<open>The templating engine\<close>

text \<open>
  Jinja2 is a library outside the repository. The source uses four of its operations, so
  the model takes them as a parameter: \<^verbatim>\<open>Environment.from_string\<close> (parse and
  compile), \<^verbatim>\<open>Environment.parse\<close>, \<^verbatim>\<open>meta.find_undeclared_variables\<close> (a set in
  Python; here the list in which the source's loop visits it) and \<^verbatim>\<open>Template.render\<close>.
  Every general statement below holds for any engine.
\<close>

record ('t, 'a) engine =
  from_string :: "string \<Rightarrow> pyerror + 't"
  parse :: "string \<Rightarrow> pyerror + 'a"
  find_undeclared_variables :: "'a \<Rightarrow> string list"
  render_template :: "'t \<Rightarrow> (string, pyval) dict \<Rightarrow> pyerror + string"

text \<open>\<^verbatim>\<open>_get_template_variables\<close> (lines 118-123).\<close>

definition get_template_variables :: "('t, 'a) engine \<Rightarrow> PromptTemplate \<Rightarrow> pyerror + string list" where
  "get_template_variables E t =
     (case parse E (pt_template t) of
        Inl e \<Rightarrow> Inl e
      | Inr ast \<Rightarrow> Inr (find_undeclared_variables E ast))"

text \<open>
  \<^verbatim>\<open>validate\<close> (lines 89-116). The list \<^verbatim>\<open>errors\<close> is threaded through the three
  blocks in the order of the source. The first block catches only
  \<^verbatim>\<open>TemplateSyntaxError\<close>: any other exception of \<^verbatim>\<open>from_string\<close> leaves \<^verbatim>\<open>validate\<close>.
  The second block catches every exception. The version is an integer by its type, so of
  the test of line 113 only \<^verbatim>\<open>self.version < 1\<close> remains.
\<close>

definition check_syntax :: "('t, 'a) engine \<Rightarrow> PromptTemplate \<Rightarrow> string list \<Rightarrow> pyerror + string list" where
  "check_syntax E t errors =
     (case from_string E (pt_template t) of
        Inr _ \<Rightarrow> Inr errors
      | Inl (TemplateSyntaxError e) \<Rightarrow> Inr (errors @ [''Template syntax error: '' @ e])
      | Inl other \<Rightarrow> Inl other)"

definition undefined_msg :: "string \<Rightarrow> string" where
  "undefined_msg var = ''Variable '' @ quoted var @ '' used in template but not defined in variables''"

definition check_variables :: "('t, 'a) engine \<Rightarrow> PromptTemplate \<Rightarrow> string list \<Rightarrow> string list" where
  "check_variables E t errors =
     (case get_template_variables E t of
        Inr template_vars \<Rightarrow>
          fold (\<lambda>var errs. if \<not> has_key (pt_variables t) var then errs @ [undefined_msg var] else errs)
            template_vars errors
      | Inl e \<Rightarrow> errors @ [''Error parsing template variables: '' @ err_msg e])"

definition check_version :: "PromptTemplate \<Rightarrow> string list \<Rightarrow> string list" where
  "check_version t errors =
     (if pt_version t < 1
      then errors @ [''Version must be a positive integer, got: '' @ str_int (pt_version t)]
      else errors)"

definition validate :: "('t, 'a) engine \<Rightarrow> PromptTemplate \<Rightarrow> pyerror + string list" where
  "validate E t =
     (case check_syntax E t [] of
        Inl e \<Rightarrow> Inl e
      | Inr errors \<Rightarrow> Inr (check_version t (check_variables E t errors)))"










section \<open>registry.py: PromptRegistry\<close>


























section \<open>An engine for plain interpolation\<close>

text \<open>
  Modelled from the spec: the templating engine is the Jinja2 library, which is not part
  of the repository. Section 4.2 of the specification asks of an engine: variable
  interpolation \<^verbatim>\<open>{{ name }}\<close>, discovery of the free variables, no escaping of the
  output, and a trailing newline kept. \<open>interpolation_engine\<close> is such an engine for the
  templates made of literal text and \<^verbatim>\<open>{{ name }}\<close> only. It prints a value as
  \<^verbatim>\<open>str\<close> does and a name that the substitution dictionary lacks as the empty string, as
  Jinja2's default \<^verbatim>\<open>Undefined\<close> does. Statements, comments and expressions other than a
  name are outside this fragment and are refused by it; it stands in for the library
  only in the concrete scenarios below.
\<close>

datatype node = TemplateData string | Name string

definition ident_start :: "char \<Rightarrow> bool" where
  "ident_start c = (c \<in> set ''abcdefghijklmnopqrstuvwxyzABCDEFGHIJKLMNOPQRSTUVWXYZ_'')"

definition ident_char :: "char \<Rightarrow> bool" where
  "ident_char c = (ident_start c \<or> c \<in> set ''0123456789'')"

definition strip :: "string \<Rightarrow> string" where
  "strip s = rev (dropWhile (\<lambda>c. c = CHR '' '') (rev (dropWhile (\<lambda>c. c = CHR '' '') s)))"

definition reserved :: "string list" where
  "reserved = [''true'', ''false'', ''none'', ''True'', ''False'', ''None'', ''and'', ''or'',
     ''not'', ''if'', ''else'', ''in'', ''is'', ''range'', ''dict'', ''lipsum'', ''cycler'',
     ''joiner'', ''namespace'']"

definition is_name :: "string \<Rightarrow> bool" where
  "is_name s = (s \<noteq> [] \<and> ident_start (hd s) \<and> list_all ident_char s \<and> s \<notin> set reserved)"

definition flush :: "string \<Rightarrow> node list" where
  "flush buf = (if buf = [] then [] else [TemplateData buf])"

fun lex_data :: "string \<Rightarrow> string \<Rightarrow> pyerror + node list"
  and lex_expr :: "string \<Rightarrow> string \<Rightarrow> pyerror + node list" where
  "lex_data buf [] = Inr (flush buf)"
| "lex_data buf [c] = Inr (flush (buf @ [c]))"
| "lex_data buf (c # d # cs) =
     (if c = CHR ''{'' \<and> d = CHR ''{'' then
        (case lex_expr [] cs of
           Inl e \<Rightarrow> Inl e
         | Inr ns \<Rightarrow> Inr (flush buf @ ns))
      else if c = CHR ''{'' \<and> (d = CHR ''%'' \<or> d = CHR ''#'') then
        Inl (TemplateSyntaxError ''a statement or a comment is outside the fragment'')
      else lex_data (buf @ [c]) (d # cs))"
| "lex_expr buf [] = Inl (TemplateSyntaxError ''unexpected end of template'')"
| "lex_expr buf [c] = Inl (TemplateSyntaxError ''unexpected end of template'')"
| "lex_expr buf (c # d # cs) =
     (if c = CHR ''}'' \<and> d = CHR ''}'' then
        (if is_name (strip buf) then
           (case lex_data [] cs of
              Inl e \<Rightarrow> Inl e
            | Inr ns \<Rightarrow> Inr (Name (strip buf) # ns))
         else Inl (TemplateSyntaxError ''the expression is outside the fragment''))
      else lex_expr (buf @ [c]) (d # cs))"

definition names_of :: "node list \<Rightarrow> string list" where
  "names_of ast = remdups (concat (map (\<lambda>n. case n of Name x \<Rightarrow> [x] | TemplateData _ \<Rightarrow> []) ast))"

definition interpolate :: "node list \<Rightarrow> (string, pyval) dict \<Rightarrow> pyerror + string" where
  "interpolate tmpl ctx =
     Inr (concat (map (\<lambda>n. case n of
                             TemplateData s \<Rightarrow> s
                           | Name x \<Rightarrow> (case map_of ctx x of None \<Rightarrow> [] | Some v \<Rightarrow> pystr v))
                      tmpl))"

definition interpolation_engine :: "(node list, node list) engine" where
  "interpolation_engine =
     \<lparr> from_string = lex_data [],
       parse = lex_data [],
       find_undeclared_variables = names_of,
       render_template = interpolate \<rparr>"

section \<open>Auxiliary notions\<close>

text \<open>
  The value that one pass of the loop of \<^verbatim>\<open>from_dict\<close> assigns for an entry, and the
  entry that one pass of the loop of \<^verbatim>\<open>to_dict\<close> assigns for a variable.
\<close>

definition entry_spec :: "string \<times> var_entry \<Rightarrow> VariableSpec" where
  "entry_spec kv = (case snd kv of
      SpecDict sp \<Rightarrow> VariableSpec_from_dict (fst kv) sp
    | SpecOther \<Rightarrow> \<lparr> vs_name = fst kv, vs_required = True, vs_default = PNone, vs_description = [] \<rparr>)"

definition spec_entry :: "string \<times> VariableSpec \<Rightarrow> var_entry" where
  "spec_entry kv = SpecDict
             \<lparr> rs_required = Some (vs_required (snd kv)),
               rs_default =
                 (if \<not> vs_required (snd kv) \<and> vs_default (snd kv) \<noteq> PNone
                  then Some (vs_default (snd kv)) else None),
               rs_description = Some (vs_description (snd kv)) \<rparr>"

text \<open>
  The document that \<^verbatim>\<open>init_prompts_dir\<close> writes (registry.py, lines 217-233).
\<close>

definition example_data :: document where
  "example_data =
     \<lparr> d_name = Some ''example'',
       d_version = Some 1,
       d_description = Some ''An example prompt template'',
       d_variables = Some (VarsDict
         [(''topic'', SpecDict \<lparr> rs_required = Some True, rs_default = None,
                                  rs_description = Some ''The topic to explain'' \<rparr>),
          (''audience'', SpecDict \<lparr> rs_required = Some False,
                                     rs_default = Some (PStr ''general audience''),
                                     rs_description = Some ''Target audience for the explanation'' \<rparr>)]),
       d_template = Some (''Explain {{ topic }} in simple terms for a {{ audience }}.'' @ [CHR 0x0A]) \<rparr>"

definition example_template :: PromptTemplate where
  "example_template =
     \<lparr> pt_name = ''example'',
       pt_template = ''Explain {{ topic }} in simple terms for a {{ audience }}.'' @ [CHR 0x0A],
       pt_version = 1,
       pt_description = ''An example prompt template'',
       pt_variables =
         [(''topic'', \<lparr> vs_name = ''topic'', vs_required = True, vs_default = PNone,
                         vs_description = ''The topic to explain'' \<rparr>),
          (''audience'', \<lparr> vs_name = ''audience'', vs_required = False,
                            vs_default = PStr ''general audience'',
                            vs_description = ''Target audience for the explanation'' \<rparr>)] \<rparr>"




















text \<open>A template whose body refers to a variable that it does not declare.\<close>

definition missing_var_template :: PromptTemplate where
  "missing_var_template =
     \<lparr> pt_name = ''q'', pt_template = ''{{ missing_var }}'', pt_version = 1, pt_description = [],
       pt_variables = [] \<rparr>"

section \<open>Properties\<close>


lemmas engine_eval = interpolation_engine_def interpolate_def names_of_def flush_def is_name_def
  strip_def ident_start_def ident_char_def reserved_def



subsection \<open>Dictionaries built by a loop\<close>

lemma update_fresh: "k \<notin> fst ` set al \<Longrightarrow> AList.update k v al = al @ [(k, v)]"
  by (induction al) auto

lemma fold_update_fresh:
  "distinct (map fst xs) \<Longrightarrow> fst ` set xs \<inter> fst ` set acc = {} \<Longrightarrow>
   fold (\<lambda>kv. AList.update (fst kv) (f kv)) xs acc = acc @ map (\<lambda>kv. (fst kv, f kv)) xs"
proof (induction xs arbitrary: acc)
  case Nil
  then show ?case by simp
next
  case (Cons x xs)
  have fresh: "fst x \<notin> fst ` set acc" using Cons.prems(2) by auto
  have step: "AList.update (fst x) (f x) acc = acc @ [(fst x, f x)]"
    using fresh by (rule update_fresh)
  have disj: "fst ` set xs \<inter> fst ` set (acc @ [(fst x, f x)]) = {}"
    using Cons.prems by auto
  have "distinct (map fst xs)" using Cons.prems(1) by simp
  from Cons.IH[OF this disj] show ?case by (simp add: step)
qed

lemma distinct_fold_update:
  "distinct (map fst acc) \<Longrightarrow> distinct (map fst (fold (\<lambda>kv. AList.update (fst kv) (f kv)) xs acc))"
  by (induction xs arbitrary: acc) (auto simp: distinct_update)

lemma from_dict_var_update: "from_dict_var = (\<lambda>kv. AList.update (fst kv) (entry_spec kv))"
  by (auto simp: fun_eq_iff from_dict_var_def entry_spec_def split: prod.splits var_entry.splits)

lemma to_dict_var_update: "to_dict_var = (\<lambda>kv. AList.update (fst kv) (spec_entry kv))"
  by (auto simp: fun_eq_iff to_dict_var_def spec_entry_def split: prod.splits)

lemma from_dict_distinct: "from_dict data = Inr t \<Longrightarrow> distinct (keys (pt_variables t))"
  unfolding keys_def
  by (auto simp: from_dict_def from_dict_variables_def from_dict_var_update distinct_fold_update
      split: yaml_data.splits option.splits variables_field.splits sum.splits)

lemma to_dict_variables:
  assumes "distinct (keys (pt_variables t))"
  shows "fold to_dict_var (pt_variables t) [] = map (\<lambda>kv. (fst kv, spec_entry kv)) (pt_variables t)"
  using fold_update_fresh[of "pt_variables t" "[]" spec_entry] assms
  by (simp add: to_dict_var_update keys_def)

lemma reparse_variables:
  assumes "distinct (keys vars)"
  shows "fold from_dict_var (map (\<lambda>kv. (fst kv, spec_entry kv)) vars) []
       = map (\<lambda>kv. (fst kv, entry_spec (fst kv, spec_entry kv))) vars"
proof -
  let ?xs = "map (\<lambda>kv. (fst kv, spec_entry kv)) vars"
  have d: "distinct (map fst ?xs)" using assms by (simp add: keys_def comp_def)
  have "fold from_dict_var ?xs [] = [] @ map (\<lambda>kv. (fst kv, entry_spec kv)) ?xs"
    unfolding from_dict_var_update by (rule fold_update_fresh[OF d]) simp
  then show ?thesis by (simp add: comp_def)
qed

lemma entry_spec_spec_entry:
  "entry_spec (k, spec_entry (k', s)) =
     \<lparr> vs_name = k, vs_required = vs_required s,
       vs_default = (if vs_required s then PNone else vs_default s),
       vs_description = vs_description s \<rparr>"
  by (simp add: entry_spec_def spec_entry_def VariableSpec_from_dict_def get_or_def)

lemma from_dict_example: "from_dict (DataDict example_data) = Inr example_template"
  by (simp add: from_dict_def from_dict_variables_def example_data_def example_template_def
      from_dict_var_def VariableSpec_from_dict_def get_or_def)

subsection \<open>Round trip of parse and serialize\<close>

text \<open>
  C4. If a document parses to a template, then serializing the template and parsing the
  result again gives a template with the same name, version, description and body, and
  with the same variables in the same order, each with its requiredness and its
  description. The default of a required variable comes back as \<^verbatim>\<open>None\<close>: the
  serialized document has, for every variable, \<^verbatim>\<open>required\<close> and \<^verbatim>\<open>description\<close>, and
  \<^verbatim>\<open>default\<close> exactly when the variable is optional and its default is not \<^verbatim>\<open>None\<close>.
\<close>

theorem C4_round_trip:
  assumes "from_dict data = Inr t"
  shows "\<exists>t'. from_dict (DataDict (to_dict t)) = Inr t'
           \<and> pt_name t' = pt_name t \<and> pt_version t' = pt_version t
           \<and> pt_description t' = pt_description t \<and> pt_template t' = pt_template t
           \<and> map (\<lambda>(k, s). (k, vs_required s, vs_description s)) (pt_variables t')
               = map (\<lambda>(k, s). (k, vs_required s, vs_description s)) (pt_variables t)
           \<and> map (\<lambda>(k, s). vs_default s) (pt_variables t')
               = map (\<lambda>(k, s). if vs_required s then PNone else vs_default s) (pt_variables t)
           \<and> d_variables (to_dict t) = Some (VarsDict (map (\<lambda>(k, s). (k, SpecDict
                 \<lparr> rs_required = Some (vs_required s),
                   rs_default = (if \<not> vs_required s \<and> vs_default s \<noteq> PNone
                                 then Some (vs_default s) else None),
                   rs_description = Some (vs_description s) \<rparr>)) (pt_variables t)))"
proof -
  have d: "distinct (keys (pt_variables t))" using assms by (rule from_dict_distinct)
  have ser: "fold to_dict_var (pt_variables t) [] = map (\<lambda>kv. (fst kv, spec_entry kv)) (pt_variables t)"
    using d by (rule to_dict_variables)
  have re: "fold from_dict_var (map (\<lambda>kv. (fst kv, spec_entry kv)) (pt_variables t)) []
       = map (\<lambda>kv. (fst kv, entry_spec (fst kv, spec_entry kv))) (pt_variables t)"
    using d by (rule reparse_variables)
  let ?t' = "\<lparr> pt_name = pt_name t, pt_template = pt_template t, pt_version = pt_version t,
               pt_description = pt_description t,
               pt_variables = map (\<lambda>kv. (fst kv, entry_spec (fst kv, spec_entry kv))) (pt_variables t) \<rparr>"
  have parse: "from_dict (DataDict (to_dict t)) = Inr ?t'"
    by (simp add: from_dict_def from_dict_variables_def to_dict_def ser re get_or_def)
  have req: "map (\<lambda>(k, s). (k, vs_required s, vs_description s)) (pt_variables ?t')
               = map (\<lambda>(k, s). (k, vs_required s, vs_description s)) (pt_variables t)"
    by (auto simp: entry_spec_def spec_entry_def VariableSpec_from_dict_def get_or_def)
  have dfl: "map (\<lambda>(k, s). vs_default s) (pt_variables ?t')
               = map (\<lambda>(k, s). if vs_required s then PNone else vs_default s) (pt_variables t)"
    by (auto simp: entry_spec_def spec_entry_def VariableSpec_from_dict_def get_or_def)
  have emit: "d_variables (to_dict t) = Some (VarsDict (map (\<lambda>(k, s). (k, SpecDict
                 \<lparr> rs_required = Some (vs_required s),
                   rs_default = (if \<not> vs_required s \<and> vs_default s \<noteq> PNone
                                 then Some (vs_default s) else None),
                   rs_description = Some (vs_description s) \<rparr>)) (pt_variables t)))"
    by (auto simp: to_dict_def ser spec_entry_def)
  show ?thesis
    using parse req dfl emit by (intro exI[of _ ?t']) simp
qed


theorem C4_round_trip_witness:
  "from_dict (DataDict example_data) = Inr example_template
   \<and> (\<exists>t'. from_dict (DataDict (to_dict example_template)) = Inr t'
         \<and> pt_name t' = ''example'' \<and> pt_version t' = 1
         \<and> map (\<lambda>(k, s). (k, vs_required s)) (pt_variables t')
             = [(''topic'', True), (''audience'', False)])"
proof -
  obtain t' where t': "from_dict (DataDict (to_dict example_template)) = Inr t'"
      "pt_name t' = pt_name example_template" "pt_version t' = pt_version example_template"
      "map (\<lambda>(k, s). (k, vs_required s, vs_description s)) (pt_variables t')
         = map (\<lambda>(k, s). (k, vs_required s, vs_description s)) (pt_variables example_template)"
    using C4_round_trip[OF from_dict_example] by blast
  have "map (\<lambda>(k, s). (k, vs_required s)) (pt_variables t')
      = map (\<lambda>(k, r, d). (k, r)) (map (\<lambda>(k, s). (k, vs_required s, vs_description s)) (pt_variables t'))"
    by (simp add: comp_def case_prod_unfold)
  also have "\<dots> = [(''topic'', True), (''audience'', False)]"
    unfolding t'(4) by (simp add: example_template_def)
  finally have "map (\<lambda>(k, s). (k, vs_required s)) (pt_variables t')
      = [(''topic'', True), (''audience'', False)]" .
  with t' from_dict_example show ?thesis by (auto simp: example_template_def)
qed

subsection \<open>Input validation and the substitution dictionary\<close>

lemma fold_append_filter:
  "fold (\<lambda>x errs. if P x then errs @ [f x] else errs) xs acc = acc @ map f (filter P xs)"
  by (induction xs arbitrary: acc) auto












subsection \<open>Undeclared keyword arguments\<close>





subsection \<open>Rendering\<close>




subsection \<open>Loading a directory\<close>












subsection \<open>Lookup\<close>






subsection \<open>Rendering through the registry\<close>



subsection \<open>Consistency of the index\<close>











subsection \<open>Creating a prompt\<close>






subsection \<open>Validation of a template\<close>

lemma check_variables_acc: "check_variables E t acc = acc @ check_variables E t []"
proof (cases "get_template_variables E t")
  case (Inl e)
  then show ?thesis by (simp add: check_variables_def)
next
  case (Inr vars)
  have "\<And>acc. fold (\<lambda>var errs. if \<not> has_key (pt_variables t) var then errs @ [undefined_msg var] else errs) vars acc
      = acc @ map undefined_msg (filter (\<lambda>var. \<not> has_key (pt_variables t) var) vars)"
    by (rule fold_append_filter)
  then show ?thesis by (simp add: check_variables_def Inr)
qed

lemma check_version_acc: "check_version t acc = acc @ check_version t []"
  by (simp add: check_version_def)

text \<open>
  C6. The messages of \<^verbatim>\<open>validate\<close> are those of the syntax check, followed by those of
  the check of the variables, followed by those of the check of the version, each check
  computed on its own; an exception of \<^verbatim>\<open>from_string\<close> other than
  \<^verbatim>\<open>TemplateSyntaxError\<close> is the only thing that ends \<^verbatim>\<open>validate\<close> early. With an
  engine that accepts the body and finds \<^verbatim>\<open>missing_var\<close> as its only free variable, a
  template without variables and with a version of at least 1 gets exactly one message,
  the one that names \<^verbatim>\<open>missing_var\<close>. The interpolation engine is such an engine on the
  body \<^verbatim>\<open>{{ missing_var }}\<close>.
\<close>

theorem C6_validate:
  "validate E t =
     (case check_syntax E t [] of
        Inl e \<Rightarrow> Inl e
      | Inr errs \<Rightarrow> Inr (errs @ check_variables E t [] @ check_version t []))
   \<and> (from_string E (pt_template t) = Inr tmpl \<and> parse E (pt_template t) = Inr ast
        \<and> find_undeclared_variables E ast = [''missing_var'']
        \<and> pt_variables t = [] \<and> 1 \<le> pt_version t
      \<longrightarrow> validate E t =
            Inr [''Variable '' @ quoted ''missing_var'' @ '' used in template but not defined in variables''])
   \<and> (pt_template t = ''{{ missing_var }}'' \<and> pt_variables t = [] \<and> 1 \<le> pt_version t
      \<longrightarrow> validate interpolation_engine t =
            Inr [''Variable '' @ quoted ''missing_var'' @ '' used in template but not defined in variables''])"
proof -
  have shape: "validate E t =
     (case check_syntax E t [] of
        Inl e \<Rightarrow> Inl e
      | Inr errs \<Rightarrow> Inr (errs @ check_variables E t [] @ check_version t []))"
  proof (cases "check_syntax E t []")
    case (Inl e)
    then show ?thesis by (simp add: validate_def)
  next
    case (Inr errs)
    have a: "check_variables E t errs = errs @ check_variables E t []"
      by (rule check_variables_acc)
    have b: "check_version t (errs @ check_variables E t [])
           = (errs @ check_variables E t []) @ check_version t []"
      by (rule check_version_acc)
    show ?thesis by (simp only: validate_def Inr sum.case a b append_assoc)
  qed
  have one: "validate E' t =
            Inr [''Variable '' @ quoted ''missing_var'' @ '' used in template but not defined in variables'']"
    if "from_string E' (pt_template t) = Inr tmpl'" "parse E' (pt_template t) = Inr ast'"
      "find_undeclared_variables E' ast' = [''missing_var'']" "pt_variables t = []" "1 \<le> pt_version t"
    for E' :: "('x, 'y) engine" and tmpl' ast'
    using that
    by (simp add: validate_def check_syntax_def check_variables_def get_template_variables_def
        check_version_def has_key_def undefined_msg_def)
  have lexed: "lex_data [] ''{{ missing_var }}'' = Inr [Name ''missing_var'']"
    by (simp add: engine_eval)
  have conc: "validate interpolation_engine t =
            Inr [''Variable '' @ quoted ''missing_var'' @ '' used in template but not defined in variables'']"
    if "pt_template t = ''{{ missing_var }}''" "pt_variables t = []" "1 \<le> pt_version t"
    using that lexed one[of interpolation_engine "[Name ''missing_var'']" "[Name ''missing_var'']"]
    by (simp add: interpolation_engine_def names_of_def)
  from shape one[of E tmpl ast] conc show ?thesis by blast
qed

theorem C6_validate_witness:
  "pt_template missing_var_template = ''{{ missing_var }}''
   \<and> pt_variables missing_var_template = [] \<and> 1 \<le> pt_version missing_var_template
   \<and> validate interpolation_engine missing_var_template =
       Inr [''Variable '' @ quoted ''missing_var'' @ '' used in template but not defined in variables'']
   \<and> validate interpolation_engine (missing_var_template\<lparr>pt_template := ''{{ missing_var'', pt_version := 0\<rparr>) =
       Inr [''Template syntax error: unexpected end of template'',
            ''Error parsing template variables: unexpected end of template'',
            ''Version must be a positive integer, got: 0'']"
proof -
  have h: "pt_template missing_var_template = ''{{ missing_var }}''"
      "pt_variables missing_var_template = []" "1 \<le> pt_version missing_var_template"
    by (simp_all add: missing_var_template_def)
  have a: "validate interpolation_engine missing_var_template =
       Inr [''Variable '' @ quoted ''missing_var'' @ '' used in template but not defined in variables'']"
    using C6_validate[of interpolation_engine missing_var_template] h by blast
  let ?bad = "missing_var_template\<lparr>pt_template := ''{{ missing_var'', pt_version := 0\<rparr>"
  have "validate interpolation_engine ?bad =
     (case check_syntax interpolation_engine ?bad [] of
        Inl e \<Rightarrow> Inl e
      | Inr errs \<Rightarrow> Inr (errs @ check_variables interpolation_engine ?bad [] @ check_version ?bad []))"
    using C6_validate[of interpolation_engine ?bad] by (rule conjunct1)
  then have b: "validate interpolation_engine ?bad =
       Inr [''Template syntax error: unexpected end of template'',
            ''Error parsing template variables: unexpected end of template'',
            ''Version must be a positive integer, got: 0'']"
    by (simp add: check_syntax_def check_variables_def get_template_variables_def check_version_def
        missing_var_template_def engine_eval str_int_def str_nat.simps digit_def)
  show ?thesis using h a b by simp
qed

subsection \<open>Loading one file\<close>




end
